theory Spec2Isabelle
  imports Main "HOL-Library.Sublist"
begin

section \<open>Python values carried by a result\<close>

text \<open>
  The module \<^verbatim>\<open>result.py\<close> wraps arbitrary Python objects. The classes that
  \<^verbatim>\<open>to_error\<close> builds at run time are objects themselves; one is described by
  what the call \<^verbatim>\<open>type(name, (ErrorType,), {...})\<close> stores in it: its identity, its
  \<^verbatim>\<open>__name__\<close>, its bases, the two variables \<^verbatim>\<open>name\<close> and \<^verbatim>\<open>explanation\<close> that the
  \<^verbatim>\<open>__repr__\<close> lambda closes over, and the dictionary entry \<^verbatim>\<open>"name"\<close>.
\<close>

datatype base = ErrorType

record dynclass =
  class_id :: nat
  class_name :: string
  class_bases :: "base list"
  repr_name :: string
  repr_explanation :: string
  name_attr :: string

text \<open>
  The payloads: \<^verbatim>\<open>None\<close>, booleans, integers, strings, a direct instance of
  \<^verbatim>\<open>ErrorType\<close>, an instance of a class made by \<^verbatim>\<open>to_error\<close>, and any other
  object, given by the name of its class and the text that formatting it yields.
\<close>

datatype pyval =
    PyNone
  | PyBool bool
  | PyInt int
  | PyStr string
  | PyErrorType
  | PyInst dynclass
  | PyObj string string

datatype pytype =
    NoneType
  | BoolType
  | IntType
  | StrType
  | ErrorTypeClass
  | DynClass dynclass
  | ObjType string

fun type_of :: "pyval \<Rightarrow> pytype" where
  "type_of PyNone = NoneType"
| "type_of (PyBool b) = BoolType"
| "type_of (PyInt i) = IntType"
| "type_of (PyStr s) = StrType"
| "type_of PyErrorType = ErrorTypeClass"
| "type_of (PyInst c) = DynClass c"
| "type_of (PyObj t s) = ObjType t"

datatype pyexc = Exception string | ValueError string

subsection \<open>Formatting a value inside an f-string\<close>

definition digit_char :: "nat \<Rightarrow> char" where
  "digit_char d = ''0123456789'' ! d"

fun nat_digits :: "nat \<Rightarrow> string" where
  "nat_digits n = (if n < 10 then [digit_char n] else nat_digits (n div 10) @ [digit_char (n mod 10)])"

declare nat_digits.simps [simp del]

definition int_str :: "int \<Rightarrow> string" where
  "int_str i = (if i < 0 then CHR ''-'' # nat_digits (nat (- i)) else nat_digits (nat i))"

text \<open>
  The methods that \<^verbatim>\<open>to_error\<close> puts into the class dictionary:
  \<^verbatim>\<open>"__repr__": lambda self: f"{name}, {explanation}"\<close> and
  \<^verbatim>\<open>"__str__": lambda self: self.__repr__()\<close>; and the attribute \<^verbatim>\<open>name\<close> of an
  instance, which has no entry of its own and so reads the class dictionary.
\<close>

definition inst_repr :: "dynclass \<Rightarrow> string" where
  "inst_repr c = repr_name c @ '', '' @ repr_explanation c"

definition inst_str :: "dynclass \<Rightarrow> string" where
  "inst_str c = inst_repr c"


text \<open>
  \<^verbatim>\<open>f"{x}"\<close> is \<^verbatim>\<open>format(x, "")\<close>, which for each of these values is \<^verbatim>\<open>str(x)\<close>;
  \<^verbatim>\<open>ErrorType.__str__\<close> returns the empty string.
\<close>

fun format_value :: "pyval \<Rightarrow> string" where
  "format_value PyNone = ''None''"
| "format_value (PyBool b) = (if b then ''True'' else ''False'')"
| "format_value (PyInt i) = int_str i"
| "format_value (PyStr s) = s"
| "format_value PyErrorType = ''''"
| "format_value (PyInst c) = inst_str c"
| "format_value (PyObj t s) = s"

section \<open>The classes Result, OK and ERROR\<close>

text \<open>
  \<^verbatim>\<open>Subclass n p\<close> is a class that client code derives from \<^verbatim>\<open>p\<close> under the name
  \<^verbatim>\<open>n\<close> and that overrides nothing.
\<close>

datatype rclass = Result | OK | ERROR | Subclass string rclass

text \<open>\<^verbatim>\<open>proper_subclass c d\<close>: class \<open>c\<close> derives from \<open>d\<close> and is not \<open>d\<close> itself.\<close>

fun proper_subclass :: "rclass \<Rightarrow> rclass \<Rightarrow> bool" where
  "proper_subclass (Subclass n p) c = (p = c \<or> proper_subclass p c)"
| "proper_subclass Result c = False"
| "proper_subclass OK c = False"
| "proper_subclass ERROR c = False"

text \<open>
  An instance: its class and the entries \<^verbatim>\<open>value\<close> and \<^verbatim>\<open>type\<close> of its own
  dictionary, absent until an \<^verbatim>\<open>__init__\<close> assigns them. An absent entry is read
  from the class: \<^verbatim>\<open>Result.value = ""\<close> and \<^verbatim>\<open>Result.type = None\<close>. No function of
  the module reads \<^verbatim>\<open>type\<close>.
\<close>

record robj =
  cls :: rclass
  inst_value :: "pyval option"
  inst_type :: "pytype option"

definition value_attr :: "robj \<Rightarrow> pyval" where
  "value_attr self = (case inst_value self of Some v \<Rightarrow> v | None \<Rightarrow> PyStr '''')"

definition new_instance :: "rclass \<Rightarrow> robj" where
  "new_instance c = \<lparr>cls = c, inst_value = None, inst_type = None\<rparr>"

definition OK_init :: "robj \<Rightarrow> pyval \<Rightarrow> robj" where
  "OK_init self v = self\<lparr>inst_value := Some v, inst_type := Some (type_of v)\<rparr>"

definition ERROR_init :: "robj \<Rightarrow> pyval \<Rightarrow> robj" where
  "ERROR_init self v = self\<lparr>inst_value := Some v, inst_type := Some (type_of v)\<rparr>"

text \<open>\<^verbatim>\<open>Result()\<close>: the class has no \<^verbatim>\<open>__init__\<close> of its own.\<close>

definition Result_new :: robj where
  "Result_new = new_instance Result"

definition Ok :: "pyval \<Rightarrow> robj" where
  "Ok v = OK_init (new_instance OK) v"

definition Error :: "pyval \<Rightarrow> robj" where
  "Error v = ERROR_init (new_instance ERROR) v"

subsection \<open>Rendering\<close>

text \<open>
  \<^verbatim>\<open>repr_method c\<close> is the \<^verbatim>\<open>__repr__\<close> that lookup on class \<^verbatim>\<open>c\<close> finds. Every
  \<^verbatim>\<open>__str__\<close> of the module returns \<^verbatim>\<open>self.__repr__()\<close>, which dispatches on
  the class of \<^verbatim>\<open>self\<close> again.
\<close>

fun repr_method :: "rclass \<Rightarrow> robj \<Rightarrow> string" where
  "repr_method Result self = ''Result<'' @ format_value (value_attr self) @ ''>''"
| "repr_method OK self = ''Ok('' @ format_value (value_attr self) @ '')''"
| "repr_method ERROR self = ''Error('' @ format_value (value_attr self) @ '')''"
| "repr_method (Subclass n p) self = repr_method p self"

definition py_repr :: "robj \<Rightarrow> string" where
  "py_repr self = repr_method (cls self) self"

fun str_method :: "rclass \<Rightarrow> robj \<Rightarrow> string" where
  "str_method Result self = py_repr self"
| "str_method OK self = py_repr self"
| "str_method ERROR self = py_repr self"
| "str_method (Subclass n p) self = str_method p self"

definition py_str :: "robj \<Rightarrow> string" where
  "py_str self = str_method (cls self) self"

subsection \<open>match, unwrap, is_error, is_ok\<close>

text \<open>
  The handlers are Python callables: they may have effects, so a handler takes the
  state of the caller and returns its result with the new state.
\<close>

definition match :: "robj \<Rightarrow> (pyval \<Rightarrow> 's \<Rightarrow> 'r \<times> 's) \<Rightarrow> (pyval \<Rightarrow> 's \<Rightarrow> 'r \<times> 's) \<Rightarrow> 's \<Rightarrow> 'r \<times> 's" where
  "match self ok error s = (if cls self = OK then ok (value_attr self) s else error (value_attr self) s)"

text \<open>
  The assertion \<^verbatim>\<open>type(value) != ERROR\<close> (assertions are on, as the interpreter
  has them unless told otherwise) is caught at once and turned into an
  \<^verbatim>\<open>Exception\<close> whose message formats the instance (\<^verbatim>\<open>f"Unwrapping error : {value}"\<close>).
\<close>

definition unwrap :: "robj \<Rightarrow> pyexc + pyval" where
  "unwrap v = (if cls v = ERROR then Inl (Exception (''Unwrapping error : '' @ py_str v))
               else Inr (value_attr v))"

definition is_error :: "robj \<Rightarrow> bool" where
  "is_error v = (cls v = ERROR)"

definition is_ok :: "robj \<Rightarrow> bool" where
  "is_ok v = (cls v = OK)"

text \<open>Handlers that record their own call, to count invocations.\<close>

datatype handler_call = OkHandler pyval | ErrorHandler pyval

definition logged_ok :: "(pyval \<Rightarrow> 'r) \<Rightarrow> pyval \<Rightarrow> handler_call list \<Rightarrow> 'r \<times> handler_call list" where
  "logged_ok f x log = (f x, log @ [OkHandler x])"

definition logged_error :: "(pyval \<Rightarrow> 'r) \<Rightarrow> pyval \<Rightarrow> handler_call list \<Rightarrow> 'r \<times> handler_call list" where
  "logged_error g x log = (g x, log @ [ErrorHandler x])"

section \<open>The error-class factory\<close>




section \<open>Programs over the module\<close>

text \<open>
  A caller holds its results by reference. The store lists the instances made so
  far; a call either makes an instance (\<^verbatim>\<open>Result()\<close>, \<^verbatim>\<open>Ok(v)\<close>, \<^verbatim>\<open>Error(e)\<close>) or hands
  an existing one to a function of the module. None of those functions assigns to
  an attribute of its argument, so each returns the store as it found it.
\<close>

datatype call =
    CallResult
  | CallOk pyval
  | CallError pyval
  | CallIsOk nat
  | CallIsError nat
  | CallUnwrap nat
  | CallMatch nat "pyval \<Rightarrow> pyval" "pyval \<Rightarrow> pyval"
  | CallStr nat

datatype answer =
    Ref nat
  | Truth bool
  | Value pyval
  | Raised pyexc
  | Text string
  | Unbound

fun perform :: "call \<Rightarrow> robj list \<Rightarrow> answer \<times> robj list" where
  "perform CallResult h = (Ref (length h), h @ [Result_new])"
| "perform (CallOk v) h = (Ref (length h), h @ [Ok v])"
| "perform (CallError e) h = (Ref (length h), h @ [Error e])"
| "perform (CallIsOk a) h = (if a < length h then Truth (is_ok (h ! a)) else Unbound, h)"
| "perform (CallIsError a) h = (if a < length h then Truth (is_error (h ! a)) else Unbound, h)"
| "perform (CallUnwrap a) h =
     (if a < length h
      then (case unwrap (h ! a) of Inl x \<Rightarrow> Raised x | Inr v \<Rightarrow> Value v)
      else Unbound, h)"
| "perform (CallMatch a f g) h =
     (if a < length h
      then Value (fst (match (h ! a) (\<lambda>x s. (f x, s)) (\<lambda>x s. (g x, s)) ()))
      else Unbound, h)"
| "perform (CallStr a) h = (if a < length h then Text (py_str (h ! a)) else Unbound, h)"

fun run :: "call list \<Rightarrow> robj list \<Rightarrow> robj list" where
  "run [] h = h"
| "run (c # cs) h = run cs (snd (perform c h))"

text \<open>The two variants, as the module tells them apart.\<close>

definition one_variant :: "robj \<Rightarrow> bool" where
  "one_variant r = ((is_ok r \<or> is_error r) \<and> \<not> (is_ok r \<and> is_error r))"

section \<open>Basic facts\<close>

lemma cls_Ok: "cls (Ok v) = OK"
  by (simp add: Ok_def OK_init_def new_instance_def)

lemma cls_Error: "cls (Error e) = ERROR"
  by (simp add: Error_def ERROR_init_def new_instance_def)

lemma value_attr_Ok: "value_attr (Ok v) = v"
  by (simp add: Ok_def OK_init_def new_instance_def value_attr_def)

lemma value_attr_Error: "value_attr (Error e) = e"
  by (simp add: Error_def ERROR_init_def new_instance_def value_attr_def)






subsection \<open>The store of a program\<close>

lemma perform_keeps: "a < length h \<Longrightarrow> snd (perform c h) ! a = h ! a"
  by (cases c) (simp_all add: nth_append)

lemma perform_length: "length h \<le> length (snd (perform c h))"
  by (cases c) simp_all

lemma run_keeps: "a < length h \<Longrightarrow> run cs h ! a = h ! a"
proof (induction cs arbitrary: h)
  case Nil
  then show ?case by simp
next
  case (Cons c cs)
  from Cons.prems perform_length [of h c] have "a < length (snd (perform c h))"
    by simp
  with Cons.IH have "run cs (snd (perform c h)) ! a = snd (perform c h) ! a" .
  with Cons.prems show ?case by (simp add: perform_keeps)
qed

lemma one_variant_Ok: "one_variant (Ok v)"
  by (simp add: one_variant_def is_ok_def is_error_def cls_Ok)

lemma one_variant_Error: "one_variant (Error e)"
  by (simp add: one_variant_def is_ok_def is_error_def cls_Error)

lemma perform_one_variant:
  "c \<noteq> CallResult \<Longrightarrow> \<forall>r\<in>set h. one_variant r \<Longrightarrow> \<forall>r\<in>set (snd (perform c h)). one_variant r"
  by (cases c) (simp_all add: one_variant_Ok one_variant_Error)

lemma run_one_variant:
  "CallResult \<notin> set cs \<Longrightarrow> \<forall>r\<in>set h. one_variant r \<Longrightarrow> \<forall>r\<in>set (run cs h). one_variant r"
proof (induction cs arbitrary: h)
  case Nil
  then show ?case by simp
next
  case (Cons c cs)
  from Cons.prems have "c \<noteq> CallResult" and rest: "CallResult \<notin> set cs" by auto
  with Cons.prems have "\<forall>r\<in>set (snd (perform c h)). one_variant r"
    using perform_one_variant by blast
  with Cons.IH rest show ?case by simp
qed

subsection \<open>Class objects and their identities\<close>





section \<open>Claims\<close>

text \<open>
  C1. For every value \<open>v\<close>, \<^verbatim>\<open>unwrap(Ok(v))\<close> returns exactly \<open>v\<close>.
\<close>

theorem unwrap_Ok: "unwrap (Ok v) = Inr v"
  by (simp add: unwrap_def cls_Ok value_attr_Ok)


text \<open>
  C3. \<^verbatim>\<open>is_ok(Ok(v))\<close> is true and \<^verbatim>\<open>is_error(Ok(v))\<close> is false;
  \<^verbatim>\<open>is_error(Error(e))\<close> is true and \<^verbatim>\<open>is_ok(Error(e))\<close> is false.
\<close>

theorem is_ok_is_error_constructors:
  "is_ok (Ok v) \<and> \<not> is_error (Ok v) \<and> is_error (Error e) \<and> \<not> is_ok (Error e)"
  by (simp add: is_ok_def is_error_def cls_Ok cls_Error)

text \<open>
  C4. \<^verbatim>\<open>match\<close> on \<^verbatim>\<open>Ok(v)\<close> returns what the first handler returns on \<open>v\<close>, with
  the effects of that handler alone; on \<^verbatim>\<open>Error(e)\<close> it returns what the second
  handler returns on \<open>e\<close>, with the effects of that handler alone. With handlers that
  record their calls, the record holds one call, of the right handler, on the
  contained value.
\<close>

theorem match_dispatch:
  "match (Ok v) f g s = f v s
   \<and> match (Error e) f g s = g e s
   \<and> match (Ok v) (logged_ok h) (logged_error k) [] = (h v, [OkHandler v])
   \<and> match (Error e) (logged_ok h) (logged_error k) [] = (k e, [ErrorHandler e])"
  by (simp add: match_def cls_Ok cls_Error value_attr_Ok value_attr_Error
      logged_ok_def logged_error_def)

text \<open>
  C5. Every instance that a program builds with \<^verbatim>\<open>Ok\<close> and \<^verbatim>\<open>Error\<close> is one of the
  two variants, not both and not neither, and no later call on the module, of
  any kind, changes an instance or its class. (An instance of the base class,
  \<^verbatim>\<open>Result()\<close>, which the module also lets a program build, is neither variant.)
\<close>

theorem constructed_outcome_one_variant:
  "CallResult \<notin> set cs \<Longrightarrow>
     (\<forall>r\<in>set (run cs []). one_variant r)
     \<and> (\<forall>a<length (run cs []). run ds (run cs []) ! a = run cs [] ! a
            \<and> cls (run ds (run cs []) ! a) = cls (run cs [] ! a))"
  using run_one_variant [of cs "[]"] by (simp add: run_keeps)

text \<open>
  The theorem at a program of three calls, followed by two more calls of which
  one is \<^verbatim>\<open>Result()\<close>.
\<close>

theorem constructed_outcome_one_variant_witness:
  "CallResult \<notin> set [CallOk (PyInt 1), CallError (PyStr ''boom''), CallUnwrap 1]
   \<and> run [CallOk (PyInt 1), CallError (PyStr ''boom''), CallUnwrap 1] [] = [Ok (PyInt 1), Error (PyStr ''boom'')]
   \<and> one_variant (Ok (PyInt 1)) \<and> one_variant (Error (PyStr ''boom''))
   \<and> run [CallResult, CallIsOk 0] [Ok (PyInt 1), Error (PyStr ''boom'')] ! 1 = Error (PyStr ''boom'')"
  using constructed_outcome_one_variant
    [of "[CallOk (PyInt 1), CallError (PyStr ''boom''), CallUnwrap 1]" "[CallResult, CallIsOk 0]"]
  by simp

text \<open>
  The instance that the one-call program \<^verbatim>\<open>Result()\<close> builds is neither \<^verbatim>\<open>OK\<close> nor
  \<^verbatim>\<open>ERROR\<close>: both \<^verbatim>\<open>is_ok\<close> and \<^verbatim>\<open>is_error\<close> are false on it.
\<close>

theorem bare_Result_neither:
  "Result_new \<in> set (run [CallResult] []) \<and> \<not> is_ok Result_new \<and> \<not> is_error Result_new
   \<and> \<not> one_variant Result_new"
  by (simp add: one_variant_def is_ok_def is_error_def Result_new_def new_instance_def)









text \<open>
  C9. \<^verbatim>\<open>unwrap\<close> on an instance whose class is neither \<^verbatim>\<open>ERROR\<close> nor \<^verbatim>\<open>OK\<close> raises
  nothing and returns the attribute \<^verbatim>\<open>value\<close> of the instance; \<^verbatim>\<open>Result()\<close> is such
  an instance, and its \<^verbatim>\<open>value\<close> is the default of the class, the empty string.
\<close>

theorem unwrap_other_class:
  "(cls r \<noteq> ERROR \<and> cls r \<noteq> OK \<longrightarrow> unwrap r = Inr (value_attr r))
   \<and> cls Result_new \<noteq> ERROR \<and> cls Result_new \<noteq> OK
   \<and> unwrap Result_new = Inr (PyStr '''')"
  by (simp add: unwrap_def Result_new_def new_instance_def value_attr_def)

text \<open>An instance of a class derived from \<^verbatim>\<open>ERROR\<close> is unwrapped without an exception.\<close>

theorem unwrap_other_class_witness:
  "cls (ERROR_init (new_instance (Subclass ''MyError'' ERROR)) (PyStr ''boom'')) \<noteq> ERROR
   \<and> cls (ERROR_init (new_instance (Subclass ''MyError'' ERROR)) (PyStr ''boom'')) \<noteq> OK
   \<and> unwrap (ERROR_init (new_instance (Subclass ''MyError'' ERROR)) (PyStr ''boom'')) = Inr (PyStr ''boom'')"
  using unwrap_other_class [of "ERROR_init (new_instance (Subclass ''MyError'' ERROR)) (PyStr ''boom'')"]
  by (simp add: ERROR_init_def new_instance_def value_attr_def)

text \<open>
  C10. For every instance whose class is not exactly \<^verbatim>\<open>OK\<close>, \<^verbatim>\<open>match\<close> runs the
  error handler on the attribute \<^verbatim>\<open>value\<close> of the instance and \<^verbatim>\<open>is_ok\<close> is false.
  An instance of a proper subclass of \<^verbatim>\<open>OK\<close> is such an instance, and so is
  \<^verbatim>\<open>Result()\<close>.
\<close>

theorem dispatch_exact_type:
  "(cls r \<noteq> OK \<longrightarrow> match r f g s = g (value_attr r) s \<and> \<not> is_ok r)
   \<and> (proper_subclass (cls r) OK \<longrightarrow> cls r \<noteq> OK)
   \<and> cls Result_new \<noteq> OK
   \<and> match Result_new f g s = g (PyStr '''') s \<and> \<not> is_ok Result_new"
  by (auto simp add: match_def is_ok_def Result_new_def new_instance_def value_attr_def)

text \<open>
  An instance of a class \<^verbatim>\<open>Fine\<close> derived from \<^verbatim>\<open>OK\<close>, built on the value 7: the
  error handler is the one handler called.
\<close>

theorem dispatch_exact_type_witness:
  "proper_subclass (cls (OK_init (new_instance (Subclass ''Fine'' OK)) (PyInt 7))) OK
   \<and> cls (OK_init (new_instance (Subclass ''Fine'' OK)) (PyInt 7)) \<noteq> OK
   \<and> match (OK_init (new_instance (Subclass ''Fine'' OK)) (PyInt 7)) (logged_ok id) (logged_error id) []
       = (PyInt 7, [ErrorHandler (PyInt 7)])
   \<and> \<not> is_ok (OK_init (new_instance (Subclass ''Fine'' OK)) (PyInt 7))"
  using dispatch_exact_type [of "OK_init (new_instance (Subclass ''Fine'' OK)) (PyInt 7)"
      "logged_ok id" "logged_error id" "[]"]
  by (simp add: OK_init_def new_instance_def value_attr_def logged_error_def)

end
